theory Spec2Isabelle
  imports Complex_Main
begin

section \<open>Values of the Python runtime\<close>

text \<open>
  The budget router of WanderPlan (\<^verbatim>\<open>budget.py\<close>) works on three kinds of data: rows of
  the relational store (\<^verbatim>\<open>database.py\<close>), JSON documents (the stored estimate and the
  replies of the language-model gateway) and Python floats.

  Numbers. A Python float is modelled by the rational number it denotes, and arithmetic
  is exact: the binary rounding of each float operation, overflow to an infinity, NaN
  and the sign of zero are outside the model. Division keeps Python's check (a zero
  divisor raises \<^verbatim>\<open>ZeroDivisionError\<close>), and \<^verbatim>\<open>round(x, n)\<close> rounds the exact value
  half to even, as CPython does on the exact value of a float.
\<close>

datatype json =
    JNull
  | JBool bool
  | JInt int
  | JFloat rat
  | JStr string
  | JArr "json list"
  | JObj "(string \<times> json) list"

datatype py_exception =
    AttributeError
  | TypeError
  | KeyError
  | ZeroDivisionError
  | ValueError
  | JSONDecodeError
  | TransportError string
  | HTTPStatusError nat
  | StatementError

definition and_then :: "'e + 'a \<Rightarrow> ('a \<Rightarrow> 'e + 'b) \<Rightarrow> 'e + 'b" where
  "and_then m f = (case m of Inl e \<Rightarrow> Inl e | Inr x \<Rightarrow> f x)"

text \<open>Python truth value of a JSON value (\<^verbatim>\<open>if v\<close>, \<^verbatim>\<open>v or d\<close>).\<close>

fun truthy :: "json \<Rightarrow> bool" where
  "truthy JNull = False"
| "truthy (JBool b) = b"
| "truthy (JInt i) = (i \<noteq> 0)"
| "truthy (JFloat r) = (r \<noteq> 0)"
| "truthy (JStr s) = (s \<noteq> [])"
| "truthy (JArr xs) = (xs \<noteq> [])"
| "truthy (JObj kvs) = (kvs \<noteq> [])"

text \<open>
  \<^verbatim>\<open>d.get(k, default)\<close>: only a dict has the method; on any other value the attribute
  access raises. A Python dict has distinct keys; the association list is read at its
  first binding.
\<close>

fun dict_get :: "json \<Rightarrow> string \<Rightarrow> json \<Rightarrow> py_exception + json" where
  "dict_get (JObj kvs) k d = Inr (case map_of kvs k of None \<Rightarrow> d | Some v \<Rightarrow> v)"
| "dict_get _ k d = Inl AttributeError"

text \<open>The number a value stands for as an operand of \<^verbatim>\<open>/\<close> (\<^verbatim>\<open>bool\<close> is a subclass of \<^verbatim>\<open>int\<close>).\<close>

fun as_number :: "json \<Rightarrow> rat option" where
  "as_number (JInt i) = Some (of_int i)"
| "as_number (JFloat r) = Some r"
| "as_number (JBool b) = Some (if b then 1 else 0)"
| "as_number _ = None"

definition float_truediv :: "rat \<Rightarrow> rat \<Rightarrow> py_exception + rat" where
  "float_truediv a b = (if b = 0 then Inl ZeroDivisionError else Inr (a / b))"

definition truediv :: "rat \<Rightarrow> json \<Rightarrow> py_exception + rat" where
  "truediv a v = (case as_number v of None \<Rightarrow> Inl TypeError | Some b \<Rightarrow> float_truediv a b)"

definition round_half_even :: "rat \<Rightarrow> int" where
  "round_half_even x =
     (let f = \<lfloor>x\<rfloor>; d = x - of_int f
      in if d < 1 / 2 then f else if 1 / 2 < d then f + 1 else if even f then f else f + 1)"

definition py_round :: "rat \<Rightarrow> nat \<Rightarrow> rat" where
  "py_round x n = of_int (round_half_even (x * 10 ^ n)) / 10 ^ n"

section \<open>The store (\<^verbatim>\<open>database.py\<close>)\<close>

text \<open>
  The columns of \<^verbatim>\<open>Trip\<close> and \<^verbatim>\<open>Expense\<close> that the budget router reads or writes. A
  nullable column is an \<open>option\<close>. The primary keys are \<open>t_id\<close> and \<open>e_id\<close> (both
  \<^verbatim>\<open>id\<close> in the source); \<open>e_notes\<close> is the column \<^verbatim>\<open>notes\<close>.
\<close>

record trip =
  t_id :: int
  title :: string
  destination :: string
  start_date :: "string option"
  end_date :: "string option"
  budget_total :: "rat option"
  budget_currency :: "string option"
  budget_estimates :: "json option"

record expense =
  e_id :: int
  trip_id :: int
  category :: string
  description :: string
  amount :: rat
  currency :: "string option"
  date :: "string option"
  e_notes :: "string option"
  created_at :: nat

definition EXPENSE_CATEGORIES :: "string list" where
  "EXPENSE_CATEGORIES =
     [''accommodation'', ''food'', ''transport'', ''activities'', ''shopping'', ''other'']"

section \<open>The summary calculator (\<^verbatim>\<open>compute_summary\<close>)\<close>

text \<open>The icons are the UTF-8 bytes of the emoji of the source.\<close>

definition CATEGORY_ICONS :: "(string \<times> string) list" where
  "CATEGORY_ICONS =
     [(''accommodation'', [CHR 0xF0, CHR 0x9F, CHR 0x8F, CHR 0xA8]),
      (''food'', [CHR 0xF0, CHR 0x9F, CHR 0x8D, CHR 0x9C]),
      (''transport'', [CHR 0xE2, CHR 0x9C, CHR 0x88, CHR 0xEF, CHR 0xB8, CHR 0x8F]),
      (''activities'', [CHR 0xF0, CHR 0x9F, CHR 0x8E, CHR 0xAD]),
      (''shopping'', [CHR 0xF0, CHR 0x9F, CHR 0x9B, CHR 0x8D, CHR 0xEF, CHR 0xB8, CHR 0x8F]),
      (''other'', [CHR 0xF0, CHR 0x9F, CHR 0x93, CHR 0xA6])]"

text \<open>\<^verbatim>\<open>CATEGORY_ICONS[cat]\<close>: a missing key raises.\<close>

definition icon_of :: "string \<Rightarrow> py_exception + string" where
  "icon_of cat = (case map_of CATEGORY_ICONS cat of None \<Rightarrow> Inl KeyError | Some i \<Rightarrow> Inr i)"

record category_entry =
  c_category :: string
  icon :: string
  spent :: rat
  estimated :: json
  pct_of_budget :: "rat option"
  pct_of_estimate :: "rat option"

record summary =
  s_budget_total :: "rat option"
  s_budget_currency :: string
  total_spent :: rat
  remaining :: "rat option"
  pct_used :: "rat option"
  categories :: "category_entry list"
  estimates :: json

text \<open>
  \<^verbatim>\<open>by_category[e.category] += e.amount\<close> on a \<^verbatim>\<open>defaultdict(float)\<close>: the dict keeps its
  keys in the order of their first insertion; a new key starts from \<^verbatim>\<open>0.0\<close>.
\<close>

fun bump :: "(string \<times> rat) list \<Rightarrow> string \<Rightarrow> rat \<Rightarrow> (string \<times> rat) list" where
  "bump [] k v = [(k, 0 + v)]"
| "bump ((k', w) # kvs) k v =
     (if k' = k then (k', w + v) # kvs else (k', w) # bump kvs k v)"

definition by_category_of :: "expense list \<Rightarrow> (string \<times> rat) list" where
  "by_category_of expenses = foldl (\<lambda>m e. bump m (category e) (amount e)) [] expenses"

text \<open>Truth value of the nullable float column: \<^verbatim>\<open>None\<close> and \<^verbatim>\<open>0.0\<close> are false.\<close>

definition budget_set :: "rat option \<Rightarrow> bool" where
  "budget_set b = (case b of None \<Rightarrow> False | Some x \<Rightarrow> x \<noteq> 0)"

text \<open>\<^verbatim>\<open>round(num / den * 100, 1) if den else None\<close> for the budget.\<close>

definition pct_of_total :: "rat \<Rightarrow> rat option \<Rightarrow> py_exception + rat option" where
  "pct_of_total num b =
     (case b of
        None \<Rightarrow> Inr None
      | Some x \<Rightarrow>
          if x \<noteq> 0
          then and_then (float_truediv num x) (\<lambda>q. Inr (Some (py_round (q * 100) 1)))
          else Inr None)"

text \<open>One iteration of the loop over \<^verbatim>\<open>EXPENSE_CATEGORIES\<close>.\<close>

definition entry_of ::
  "trip \<Rightarrow> (string \<times> rat) list \<Rightarrow> json \<Rightarrow> string \<Rightarrow> py_exception + category_entry" where
  "entry_of trip by_category ests cat =
     (let sp = (case map_of by_category cat of None \<Rightarrow> 0 | Some v \<Rightarrow> v) in
      and_then (dict_get ests cat (JObj [])) (\<lambda>entry.
      and_then (dict_get entry ''amount'' (JFloat 0)) (\<lambda>est.
      and_then (icon_of cat) (\<lambda>ic.
      and_then (pct_of_total sp (budget_total trip)) (\<lambda>pb.
      and_then (if truthy est
                then and_then (truediv sp est) (\<lambda>q. Inr (Some (py_round (q * 100) 1)))
                else Inr None) (\<lambda>pe.
      Inr \<lparr>c_category = cat, icon = ic, spent = sp, estimated = est,
           pct_of_budget = pb, pct_of_estimate = pe\<rparr>))))))"

fun entries_of ::
  "trip \<Rightarrow> (string \<times> rat) list \<Rightarrow> json \<Rightarrow> string list \<Rightarrow> py_exception + category_entry list" where
  "entries_of trip by_category ests [] = Inr []"
| "entries_of trip by_category ests (cat # cats) =
     and_then (entry_of trip by_category ests cat) (\<lambda>c.
     and_then (entries_of trip by_category ests cats) (\<lambda>cs. Inr (c # cs)))"

definition compute_summary :: "trip \<Rightarrow> expense list \<Rightarrow> py_exception + summary" where
  "compute_summary trip expenses =
     (let cur = (case budget_currency trip of None \<Rightarrow> ''USD''
                 | Some c \<Rightarrow> if c = [] then ''USD'' else c);
          by_category = by_category_of expenses;
          total = sum_list (map snd by_category);
          ests = (case budget_estimates trip of None \<Rightarrow> JObj []
                  | Some j \<Rightarrow> if truthy j then j else JObj [])
      in and_then (entries_of trip by_category ests EXPENSE_CATEGORIES) (\<lambda>cats.
         and_then (pct_of_total total (budget_total trip)) (\<lambda>pu.
         Inr \<lparr>s_budget_total = budget_total trip, s_budget_currency = cur,
              total_spent = py_round total 2,
              remaining = (case budget_total trip of
                             None \<Rightarrow> None
                           | Some x \<Rightarrow> if x \<noteq> 0 then Some (py_round (x - total) 2) else None),
              pct_used = pu, categories = cats, estimates = ests\<rparr>)))"

section \<open>Requests, failures and the session\<close>

record BudgetUpdate =
  bu_budget_total :: "rat option"
  bu_budget_currency :: "string option"

record ExpenseCreate =
  ec_category :: string
  ec_description :: string
  ec_amount :: rat
  ec_currency :: "string option"
  ec_date :: "string option"
  ec_notes :: "string option"

record ExpenseUpdate =
  eu_category :: "string option"
  eu_description :: "string option"
  eu_amount :: "rat option"
  eu_currency :: "string option"
  eu_date :: "string option"
  eu_notes :: "string option"

record EstimateRequest =
  model :: string
  travelers :: int
  duration_days :: "int option"
  travel_style :: string

text \<open>
  A request ends with a response or with a failure: an \<^verbatim>\<open>HTTPException\<close> raised by the
  handler (status and detail), or an exception nobody catches, which the framework
  answers with status 500. The detail of the 502 is \<^verbatim>\<open>"Ollama error: " + str(e)\<close>; the
  model keeps the exception \<open>e\<close> itself.
\<close>

datatype detail =
    Detail string
  | CategoryMustBeOneOf "string list"
  | OllamaError py_exception

datatype failure =
    HTTPException nat detail
  | Unhandled py_exception

text \<open>
  The store is the two tables, in row order. A handler receives the store and returns
  the store it leaves behind: the rows written by \<^verbatim>\<open>db.commit()\<close>, or the store as it
  was when the request fails before the commit (the session is closed without one).
\<close>

record db =
  trip_rows :: "trip list"
  expense_rows :: "expense list"

text \<open>\<^verbatim>\<open>db.query(Trip).filter(Trip.id == trip_id).first()\<close>\<close>

definition first_trip :: "db \<Rightarrow> int \<Rightarrow> trip option" where
  "first_trip d tid = find (\<lambda>t. t_id t = tid) (trip_rows d)"

text \<open>\<^verbatim>\<open>db.query(Expense).filter(Expense.trip_id == trip_id).all()\<close>\<close>

definition expenses_of :: "db \<Rightarrow> int \<Rightarrow> expense list" where
  "expenses_of d tid = filter (\<lambda>e. trip_id e = tid) (expense_rows d)"

text \<open>\<^verbatim>\<open>db.query(Expense).filter(Expense.id == expense_id, Expense.trip_id == trip_id).first()\<close>\<close>

definition first_expense :: "db \<Rightarrow> int \<Rightarrow> int \<Rightarrow> expense option" where
  "first_expense d eid tid = find (\<lambda>e. e_id e = eid \<and> trip_id e = tid) (expense_rows d)"

text \<open>
  The commit of a changed row is an \<^verbatim>\<open>UPDATE\<close> by primary key, the commit of a deleted
  row a \<^verbatim>\<open>DELETE\<close> by primary key.
\<close>

definition commit_trip :: "db \<Rightarrow> trip \<Rightarrow> db" where
  "commit_trip d t = d\<lparr>trip_rows := map (\<lambda>r. if t_id r = t_id t then t else r) (trip_rows d)\<rparr>"

definition commit_expense :: "db \<Rightarrow> expense \<Rightarrow> db" where
  "commit_expense d e =
     d\<lparr>expense_rows := map (\<lambda>r. if e_id r = e_id e then e else r) (expense_rows d)\<rparr>"

definition commit_delete_expense :: "db \<Rightarrow> expense \<Rightarrow> db" where
  "commit_delete_expense d e = d\<lparr>expense_rows := filter (\<lambda>r. e_id r \<noteq> e_id e) (expense_rows d)\<rparr>"

text \<open>
  The key of an inserted row: SQLite gives an \<^verbatim>\<open>INTEGER PRIMARY KEY\<close> one more than the
  largest key in the table, and 1 in an empty table (keys are positive).
\<close>

definition next_expense_id :: "db \<Rightarrow> int" where
  "next_expense_id d = fold max (map e_id (expense_rows d)) 0 + 1"

text \<open>Truth value of an optional string: \<^verbatim>\<open>None\<close> and \<^verbatim>\<open>""\<close> are false.\<close>

definition str_set :: "string option \<Rightarrow> bool" where
  "str_set s = (case s of None \<Rightarrow> False | Some x \<Rightarrow> x \<noteq> [])"

text \<open>
  \<^verbatim>\<open>str.upper()\<close> on the ASCII letters; other bytes are kept (the case mapping of
  Unicode beyond ASCII is not modelled).
\<close>

definition upper_char :: "char \<Rightarrow> char" where
  "upper_char c =
     (case map_of (zip ''abcdefghijklmnopqrstuvwxyz'' ''ABCDEFGHIJKLMNOPQRSTUVWXYZ'') c of
        None \<Rightarrow> c
      | Some u \<Rightarrow> u)"

definition upper :: "string \<Rightarrow> string" where
  "upper s = map upper_char s"

text \<open>What a handler returns when \<^verbatim>\<open>compute_summary\<close> raises: nobody catches it.\<close>

definition summary_or_500 :: "py_exception + summary \<Rightarrow> failure + summary" where
  "summary_or_500 r = (case r of Inl e \<Rightarrow> Inl (Unhandled e) | Inr s \<Rightarrow> Inr s)"

text \<open>
  \<^verbatim>\<open>compute_summary(trip, expenses)\<close> where \<^verbatim>\<open>trip\<close> comes from a query that may have found
  nothing: reading \<^verbatim>\<open>trip.budget_currency\<close> on \<^verbatim>\<open>None\<close> raises.
\<close>

definition compute_summary_opt :: "trip option \<Rightarrow> expense list \<Rightarrow> py_exception + summary" where
  "compute_summary_opt t es = (case t of None \<Rightarrow> Inl AttributeError | Some trip \<Rightarrow> compute_summary trip es)"

section \<open>Budget settings (\<^verbatim>\<open>update_budget_settings\<close>)\<close>

definition update_budget_settings :: "db \<Rightarrow> int \<Rightarrow> BudgetUpdate \<Rightarrow> (failure + summary) \<times> db" where
  "update_budget_settings d tid data =
     (case first_trip d tid of
        None \<Rightarrow> (Inl (HTTPException 404 (Detail ''Trip not found'')), d)
      | Some trip \<Rightarrow>
          let trip1 = (case bu_budget_total data of
                         None \<Rightarrow> trip
                       | Some v \<Rightarrow> trip\<lparr>budget_total := Some v\<rparr>);
              trip2 = (case bu_budget_currency data of
                         None \<Rightarrow> trip1
                       | Some c \<Rightarrow> trip1\<lparr>budget_currency := Some (upper c)\<rparr>);
              d' = commit_trip d trip2
          in (summary_or_500 (compute_summary trip2 (expenses_of d' tid)), d'))"

section \<open>Expenses (\<^verbatim>\<open>add_expense\<close>, \<^verbatim>\<open>update_expense\<close>, \<^verbatim>\<open>delete_expense\<close>)\<close>

text \<open>
  \<^verbatim>\<open>expense_to_dict\<close>: the columns of the row and the icon,
  \<^verbatim>\<open>CATEGORY_ICONS.get(e.category, default)\<close> with the icon of \<^verbatim>\<open>other\<close> as default.
\<close>

record expense_dict =
  row :: expense
  row_icon :: string

definition expense_to_dict :: "expense \<Rightarrow> expense_dict" where
  "expense_to_dict e =
     \<lparr>row = e,
      row_icon = (case map_of CATEGORY_ICONS (category e) of
                    None \<Rightarrow> [CHR 0xF0, CHR 0x9F, CHR 0x93, CHR 0xA6]
                  | Some i \<Rightarrow> i)\<rparr>"

record expense_response =
  r_expense :: expense_dict
  r_summary :: summary

definition expense_response_or_500 ::
  "expense \<Rightarrow> py_exception + summary \<Rightarrow> failure + expense_response" where
  "expense_response_or_500 e r =
     (case r of
        Inl x \<Rightarrow> Inl (Unhandled x)
      | Inr s \<Rightarrow> Inr \<lparr>r_expense = expense_to_dict e, r_summary = s\<rparr>)"

text \<open>
  \<open>now\<close> is the clock read by the column default of \<^verbatim>\<open>created_at\<close>.
  \<^verbatim>\<open>data.currency or trip.budget_currency or "USD"\<close> takes the first true operand.
\<close>

definition add_expense ::
  "nat \<Rightarrow> db \<Rightarrow> int \<Rightarrow> ExpenseCreate \<Rightarrow> (failure + expense_response) \<times> db" where
  "add_expense now d tid data =
     (case first_trip d tid of
        None \<Rightarrow> (Inl (HTTPException 404 (Detail ''Trip not found'')), d)
      | Some trip \<Rightarrow>
          if ec_category data \<notin> set EXPENSE_CATEGORIES
          then (Inl (HTTPException 400 (CategoryMustBeOneOf EXPENSE_CATEGORIES)), d)
          else
            let new = \<lparr>e_id = next_expense_id d, trip_id = tid,
                       category = ec_category data, description = ec_description data,
                       amount = ec_amount data,
                       currency = (if str_set (ec_currency data) then ec_currency data
                                   else if str_set (budget_currency trip) then budget_currency trip
                                   else Some ''USD''),
                       date = ec_date data, e_notes = ec_notes data, created_at = now\<rparr>;
                d' = d\<lparr>expense_rows := expense_rows d @ [new]\<rparr>
            in (expense_response_or_500 new (compute_summary trip (expenses_of d' tid)), d'))"

text \<open>
  \<^verbatim>\<open>for field, value in data.dict(exclude_none=True).items(): setattr(expense, field, value)\<close>:
  each field of the request that is not \<^verbatim>\<open>None\<close> overwrites the column of that name.
\<close>

definition apply_update :: "ExpenseUpdate \<Rightarrow> expense \<Rightarrow> expense" where
  "apply_update data e =
     (let e1 = (case eu_category data of None \<Rightarrow> e | Some v \<Rightarrow> e\<lparr>category := v\<rparr>);
          e2 = (case eu_description data of None \<Rightarrow> e1 | Some v \<Rightarrow> e1\<lparr>description := v\<rparr>);
          e3 = (case eu_amount data of None \<Rightarrow> e2 | Some v \<Rightarrow> e2\<lparr>amount := v\<rparr>);
          e4 = (case eu_currency data of None \<Rightarrow> e3 | Some v \<Rightarrow> e3\<lparr>currency := Some v\<rparr>);
          e5 = (case eu_date data of None \<Rightarrow> e4 | Some v \<Rightarrow> e4\<lparr>date := Some v\<rparr>)
      in case eu_notes data of None \<Rightarrow> e5 | Some v \<Rightarrow> e5\<lparr>e_notes := Some v\<rparr>)"

definition update_expense ::
  "db \<Rightarrow> int \<Rightarrow> int \<Rightarrow> ExpenseUpdate \<Rightarrow> (failure + expense_response) \<times> db" where
  "update_expense d tid eid data =
     (case first_expense d eid tid of
        None \<Rightarrow> (Inl (HTTPException 404 (Detail ''Expense not found'')), d)
      | Some e \<Rightarrow>
          let e' = apply_update data e;
              d' = commit_expense d e'
          in (expense_response_or_500 e'
                (compute_summary_opt (first_trip d' tid) (expenses_of d' tid)), d'))"

definition delete_expense :: "db \<Rightarrow> int \<Rightarrow> int \<Rightarrow> (failure + summary) \<times> db" where
  "delete_expense d tid eid =
     (case first_expense d eid tid of
        None \<Rightarrow> (Inl (HTTPException 404 (Detail ''Expense not found'')), d)
      | Some e \<Rightarrow>
          let d' = commit_delete_expense d e
          in (summary_or_500 (compute_summary_opt (first_trip d' tid) (expenses_of d' tid)), d'))"

text \<open>
  \<^verbatim>\<open>delete_trip\<close> of the trips router, as far as the two tables go: the relationship
  \<^verbatim>\<open>expenses\<close> cascades the deletion to the expenses of the trip.
\<close>

definition delete_trip :: "db \<Rightarrow> int \<Rightarrow> (failure + bool) \<times> db" where
  "delete_trip d tid =
     (case first_trip d tid of
        None \<Rightarrow> (Inl (HTTPException 404 (Detail ''Trip not found'')), d)
      | Some trip \<Rightarrow>
          (Inr True,
           d\<lparr>trip_rows := filter (\<lambda>r. t_id r \<noteq> t_id trip) (trip_rows d),
             expense_rows := filter (\<lambda>e. trip_id e \<noteq> t_id trip) (expense_rows d)\<rparr>))"

text \<open>Every expense row belongs to a trip row.\<close>

definition owned :: "db \<Rightarrow> bool" where
  "owned d = (\<forall>e \<in> set (expense_rows d). \<exists>t \<in> set (trip_rows d). t_id t = trip_id e)"

section \<open>The language-model gateway (\<^verbatim>\<open>generate_structured\<close>)\<close>

text \<open>
  Functions of the Python libraries that the handlers call and whose code is not part of
  the repository are parameters of the model:
  \<^item> \<open>fromisoformat\<close>: \<^verbatim>\<open>date.fromisoformat(s)\<close>, as the day number of the date
    (\<^verbatim>\<open>toordinal()\<close>), or \<open>None\<close> when it raises;
  \<^item> \<open>json_loads\<close>: \<^verbatim>\<open>json.loads(s)\<close>, or \<open>None\<close> when it raises \<^verbatim>\<open>JSONDecodeError\<close>;
  \<^item> \<open>float_column\<close>: what the commit writes to a \<^verbatim>\<open>Float\<close> column for a value that is
    not a number (a string, a list, an object), or \<open>None\<close> when the commit raises;
  \<^item> \<open>string_column\<close>: what the commit writes to a \<^verbatim>\<open>String\<close> column for a value that
    is not a string, or \<open>None\<close> when the commit raises.
\<close>

record library =
  fromisoformat :: "string \<Rightarrow> int option"
  json_loads :: "string \<Rightarrow> json option"
  float_column :: "json \<Rightarrow> rat option"
  string_column :: "json \<Rightarrow> string option"

text \<open>
  The prompt is a fixed text around four values; the model keeps the four values.
  The payload of the POST: the system prompt and \<^verbatim>\<open>"stream": False\<close> are constants and
  are left out.
\<close>

record prompt =
  p_destination :: string
  p_duration :: int
  p_travelers :: int
  p_travel_style :: string

record payload =
  pl_model :: string
  pl_prompt :: prompt
  pl_format :: json

text \<open>
  The outcome of \<^verbatim>\<open>client.post\<close>: the transport fails with a message, or a response
  arrives with a status and a body (\<open>None\<close>: the body is not JSON).
\<close>

datatype http_exchange =
    ConnectFailed string
  | Responded nat "json option"

record usage =
  prompt_tokens :: json
  completion_tokens :: json
  total_duration_ms :: int

record generated =
  result :: json
  usage :: usage

definition number_schema :: json where
  "number_schema = JObj [(''type'', JStr ''number'')]"

definition string_schema :: json where
  "string_schema = JObj [(''type'', JStr ''string'')]"

definition category_schema :: json where
  "category_schema =
     JObj [(''type'', JStr ''object''),
           (''properties'', JObj [(''amount'', number_schema), (''notes'', string_schema)]),
           (''required'', JArr [JStr ''amount'', JStr ''notes''])]"

definition ESTIMATE_SCHEMA :: json where
  "ESTIMATE_SCHEMA =
     JObj [(''type'', JStr ''object''),
           (''properties'',
              JObj [(''accommodation'', category_schema), (''food'', category_schema),
                    (''transport'', category_schema), (''activities'', category_schema),
                    (''shopping'', category_schema), (''other'', category_schema),
                    (''total'', number_schema), (''currency'', string_schema),
                    (''summary'', string_schema)]),
           (''required'',
              JArr [JStr ''accommodation'', JStr ''food'', JStr ''transport'',
                    JStr ''activities'', JStr ''total'', JStr ''currency'', JStr ''summary''])]"

text \<open>
  \<open>gateway\<close> answers a payload. The function returns its result, or the exception it
  raises, together with the payloads it has sent. \<^verbatim>\<open>client.post\<close> raises when the transport
  fails, \<^verbatim>\<open>raise_for_status\<close> raises for a status outside 200 to 299, \<^verbatim>\<open>response.json()\<close>
  raises for a body that is not JSON, and \<^verbatim>\<open>json.loads\<close> raises \<^verbatim>\<open>TypeError\<close> for a content
  that is not a string.
\<close>

definition generate_structured ::
  "library \<Rightarrow> (payload \<Rightarrow> http_exchange) \<Rightarrow> prompt \<Rightarrow> string \<Rightarrow> json option
     \<Rightarrow> (py_exception + generated) \<times> payload list" where
  "generate_structured lib gateway p m schema =
     (let pl = \<lparr>pl_model = m, pl_prompt = p,
                pl_format = (case schema of
                               None \<Rightarrow> JStr ''json''
                             | Some j \<Rightarrow> if truthy j then j else JStr ''json'')\<rparr>
      in (case gateway pl of
            ConnectFailed msg \<Rightarrow> Inl (TransportError msg)
          | Responded st body \<Rightarrow>
              if \<not> (200 \<le> st \<and> st < 300) then Inl (HTTPStatusError st)
              else (case body of
                      None \<Rightarrow> Inl JSONDecodeError
                    | Some data \<Rightarrow>
                        and_then (dict_get data ''message'' (JObj [])) (\<lambda>msg.
                        and_then (dict_get msg ''content'' (JStr ''{}'')) (\<lambda>content.
                        and_then (dict_get data ''prompt_eval_count'' (JInt 0)) (\<lambda>pt.
                        and_then (dict_get data ''eval_count'' (JInt 0)) (\<lambda>ct.
                        and_then (dict_get data ''total_duration'' (JInt 0)) (\<lambda>td.
                        and_then (case as_number td of
                                    None \<Rightarrow> Inl TypeError
                                  | Some n \<Rightarrow> float_truediv n 1000000) (\<lambda>ms.
                        let u = \<lparr>prompt_tokens = pt, completion_tokens = ct,
                                 total_duration_ms = round_half_even ms\<rparr>
                        in (case content of
                              JStr c \<Rightarrow>
                                (case json_loads lib c of
                                   Some j \<Rightarrow> Inr \<lparr>result = j, usage = u\<rparr>
                                 | None \<Rightarrow> Inr \<lparr>result = content, usage = u\<rparr>)
                            | _ \<Rightarrow> Inl TypeError)))))))),
          [pl]))"

section \<open>The cost estimator (\<^verbatim>\<open>estimate_costs\<close>)\<close>

text \<open>Lines 143 to 153: the duration that goes into the prompt.\<close>

definition resolve_duration :: "library \<Rightarrow> trip \<Rightarrow> EstimateRequest \<Rightarrow> int" where
  "resolve_duration lib trip req =
     (let duration = duration_days req;
          absent = (case duration of None \<Rightarrow> True | Some n \<Rightarrow> n = 0);
          duration' =
            (if absent \<and> str_set (start_date trip) \<and> str_set (end_date trip)
             then (case start_date trip of
                     None \<Rightarrow> duration
                   | Some sd \<Rightarrow>
                       (case fromisoformat lib sd of
                          None \<Rightarrow> duration
                        | Some s \<Rightarrow>
                            (case end_date trip of
                               None \<Rightarrow> duration
                             | Some ed \<Rightarrow>
                                 (case fromisoformat lib ed of
                                    None \<Rightarrow> duration
                                  | Some e \<Rightarrow> Some (max 1 (e - s))))))
             else duration)
      in case duration' of None \<Rightarrow> 7 | Some n \<Rightarrow> if n \<noteq> 0 then n else 7)"

text \<open>Lines 155 to 167: the values that the prompt is built from.\<close>

definition estimate_prompt :: "library \<Rightarrow> trip \<Rightarrow> EstimateRequest \<Rightarrow> prompt" where
  "estimate_prompt lib trip req =
     \<lparr>p_destination = destination trip, p_duration = resolve_duration lib trip req,
      p_travelers = travelers req, p_travel_style = travel_style req\<rparr>"

record estimate_response =
  er_estimates :: json
  er_summary :: summary

text \<open>
  What the commit writes for the values assigned to the three columns. \<^verbatim>\<open>None\<close> is
  stored as null; a number goes into the \<^verbatim>\<open>Float\<close> column as a float and a string into
  the \<^verbatim>\<open>String\<close> column as it is.
\<close>

definition to_float_column :: "library \<Rightarrow> json \<Rightarrow> py_exception + rat option" where
  "to_float_column lib v =
     (case v of
        JNull \<Rightarrow> Inr None
      | _ \<Rightarrow> (case as_number v of
                Some n \<Rightarrow> Inr (Some n)
              | None \<Rightarrow> (case float_column lib v of
                           None \<Rightarrow> Inl StatementError
                         | Some n \<Rightarrow> Inr (Some n))))"

definition to_string_column :: "library \<Rightarrow> json \<Rightarrow> py_exception + string option" where
  "to_string_column lib v =
     (case v of
        JNull \<Rightarrow> Inr None
      | JStr s \<Rightarrow> Inr (Some s)
      | _ \<Rightarrow> (case string_column lib v of
                None \<Rightarrow> Inl StatementError
              | Some s \<Rightarrow> Inr (Some s)))"

definition to_json_column :: "json \<Rightarrow> json option" where
  "to_json_column v = (case v of JNull \<Rightarrow> None | _ \<Rightarrow> Some v)"

definition is_str :: "json \<Rightarrow> bool" where
  "is_str v = (case v of JStr s \<Rightarrow> True | _ \<Rightarrow> False)"

text \<open>
  Lines 178 to 185: the assignments to the trip and the commit. The result is the trip
  row as committed, or the exception raised on the way (then nothing is committed).
\<close>

definition save_estimates :: "library \<Rightarrow> trip \<Rightarrow> json \<Rightarrow> py_exception + trip" where
  "save_estimates lib trip ests =
     and_then (if \<not> str_set (budget_currency trip)
               then and_then (dict_get ests ''currency'' (JStr ''USD'')) (\<lambda>c. Inr (Some c))
               else Inr None) (\<lambda>new_currency.
     and_then (if \<not> budget_set (budget_total trip)
               then and_then (dict_get ests ''total'' JNull)
                      (\<lambda>t. Inr (if truthy t then Some t else None))
               else Inr None) (\<lambda>new_total.
     and_then (case new_currency of
                 None \<Rightarrow> Inr (budget_currency trip)
               | Some c \<Rightarrow> to_string_column lib c) (\<lambda>cur.
     and_then (case new_total of
                 None \<Rightarrow> Inr (budget_total trip)
               | Some t \<Rightarrow> to_float_column lib t) (\<lambda>tot.
     Inr (trip\<lparr>budget_estimates := to_json_column ests,
               budget_currency := cur, budget_total := tot\<rparr>)))))"

text \<open>
  The handler returns the response or the failure, the store it leaves behind and the
  payloads sent to the gateway.
\<close>

definition estimate_costs ::
  "library \<Rightarrow> (payload \<Rightarrow> http_exchange) \<Rightarrow> db \<Rightarrow> int \<Rightarrow> EstimateRequest
     \<Rightarrow> (failure + estimate_response) \<times> db \<times> payload list" where
  "estimate_costs lib gateway d tid req =
     (case first_trip d tid of
        None \<Rightarrow> (Inl (HTTPException 404 (Detail ''Trip not found'')), d, [])
      | Some trip \<Rightarrow>
          let (r, sent) = generate_structured lib gateway (estimate_prompt lib trip req)
                            (model req) (Some ESTIMATE_SCHEMA)
          in (case r of
                Inl e \<Rightarrow> (Inl (HTTPException 502 (OllamaError e)), d, sent)
              | Inr g \<Rightarrow>
                  let ests = result g in
                  if is_str ests
                  then (Inl (HTTPException 422
                          (Detail ''Could not parse estimates from Ollama response'')), d, sent)
                  else (case save_estimates lib trip ests of
                          Inl e \<Rightarrow> (Inl (Unhandled e), d, sent)
                        | Inr trip' \<Rightarrow>
                            let d' = commit_trip d trip'
                            in (case compute_summary trip' (expenses_of d' tid) of
                                  Inl e \<Rightarrow> (Inl (Unhandled e), d', sent)
                                | Inr s \<Rightarrow>
                                    (Inr \<lparr>er_estimates = ests, er_summary = s\<rparr>, d', sent)))))"

section \<open>Notions used in the statements\<close>

text \<open>The sum of the amounts of the expenses of one category.\<close>

definition spent_in :: "expense list \<Rightarrow> string \<Rightarrow> rat" where
  "spent_in es cat = sum_list (map amount (filter (\<lambda>e. category e = cat) es))"


text \<open>
  The shape of a stored estimate: nothing at all, a false value, or an object in which
  the entry of a category, where there is one, is an object whose amount, where there is
  one, is a number or a false value.
\<close>

definition shaped_entry :: "json \<Rightarrow> bool" where
  "shaped_entry v =
     (case v of
        JObj entry \<Rightarrow>
          (case map_of entry ''amount'' of
             None \<Rightarrow> True
           | Some a \<Rightarrow> \<not> truthy a \<or> as_number a \<noteq> None)
      | _ \<Rightarrow> False)"

definition shaped :: "json option \<Rightarrow> bool" where
  "shaped b =
     (case b of
        None \<Rightarrow> True
      | Some j \<Rightarrow>
          \<not> truthy j \<or>
          (case j of
             JObj kvs \<Rightarrow>
               (\<forall>cat \<in> set EXPENSE_CATEGORIES.
                  case map_of kvs cat of None \<Rightarrow> True | Some v \<Rightarrow> shaped_entry v)
           | _ \<Rightarrow> False))"

text \<open>The value \<^verbatim>\<open>by_category.get(k, 0.0)\<close> reads.\<close>

definition lookup0 :: "(string \<times> rat) list \<Rightarrow> string \<Rightarrow> rat" where
  "lookup0 m k = (case map_of m k of None \<Rightarrow> 0 | Some v \<Rightarrow> v)"

text \<open>The ratio against the estimate of a category, where the code computes one.\<close>

definition pct_est :: "rat \<Rightarrow> json \<Rightarrow> rat option" where
  "pct_est sp est =
     (if truthy est
      then (case as_number est of None \<Rightarrow> None | Some n \<Rightarrow> Some (py_round (sp / n * 100) 1))
      else None)"

text \<open>
  The value \<^verbatim>\<open>estimates.get(cat, {}).get("amount", 0.0)\<close> reads, where both reads
  succeed.
\<close>

definition est_of :: "json \<Rightarrow> string \<Rightarrow> json option" where
  "est_of ests cat = (case ests of JObj kvs \<Rightarrow> (case (case map_of kvs cat of None \<Rightarrow> JObj [] | Some v \<Rightarrow> v) of JObj en \<Rightarrow> Some (case map_of en ''amount'' of None \<Rightarrow> JFloat 0 | Some a \<Rightarrow> a) | _ \<Rightarrow> None) | _ \<Rightarrow> None)"

text \<open>\<^verbatim>\<open>trip.budget_estimates or {}\<close>\<close>

definition estimates_or_empty :: "trip \<Rightarrow> json" where
  "estimates_or_empty trip =
     (case budget_estimates trip of None \<Rightarrow> JObj [] | Some j \<Rightarrow> if truthy j then j else JObj [])"

text \<open>What the entry of a category holds.\<close>

definition entry_ok :: "trip \<Rightarrow> expense list \<Rightarrow> string \<Rightarrow> category_entry \<Rightarrow> bool" where
  "entry_ok trip es cat c \<longleftrightarrow>
     c_category c = cat \<and> spent c = spent_in es cat \<and>
     est_of (estimates_or_empty trip) cat = Some (estimated c) \<and>
     (truthy (estimated c) \<longrightarrow> as_number (estimated c) \<noteq> None) \<and>
     pct_of_budget c = (case budget_total trip of None \<Rightarrow> None
        | Some x \<Rightarrow> if x \<noteq> 0 then Some (py_round (spent c / x * 100) 1) else None) \<and>
     pct_of_estimate c = pct_est (spent c) (estimated c)"

text \<open>The payload that \<open>estimate_costs\<close> sends for a trip and a request.\<close>

definition estimate_payload :: "library \<Rightarrow> trip \<Rightarrow> EstimateRequest \<Rightarrow> payload" where
  "estimate_payload lib trip req =
     \<lparr>pl_model = model req, pl_prompt = estimate_prompt lib trip req, pl_format = ESTIMATE_SCHEMA\<rparr>"

section \<open>Sample data\<close>

definition rome :: trip where
  "rome = \<lparr>t_id = 1, title = ''Spring'', destination = ''Rome'', start_date = None,
           end_date = None, budget_total = Some 1000, budget_currency = Some ''USD'',
           budget_estimates = None\<rparr>"

definition lunch :: expense where
  "lunch = \<lparr>e_id = 1, trip_id = 1, category = ''food'', description = ''lunch'',
            amount = 150, currency = Some ''USD'', date = None, e_notes = None,
            created_at = 0\<rparr>"




text \<open>A trip with a budget and an estimate.\<close>

definition paris :: trip where
  "paris = \<lparr>t_id = 4, title = ''Summer'', destination = ''Paris'',
            start_date = Some ''2024-07-01'', end_date = Some ''2024-07-05'',
            budget_total = Some 500, budget_currency = Some ''EUR'',
            budget_estimates =
              Some (JObj [(''food'', JObj [(''amount'', JFloat 300), (''notes'', JStr ''bistros'')]),
                          (''total'', JInt 1200), (''currency'', JStr ''EUR'')])\<rparr>"

text \<open>A store, and requests to it.\<close>

definition store0 :: db where
  "store0 = \<lparr>trip_rows = [rome, paris], expense_rows = [lunch]\<rparr>"

definition to_flights :: ExpenseUpdate where
  "to_flights = \<lparr>eu_category = Some ''flights'', eu_description = None, eu_amount = None,
                 eu_currency = None, eu_date = None, eu_notes = None\<rparr>"

definition flights_create :: ExpenseCreate where
  "flights_create = \<lparr>ec_category = ''flights'', ec_description = ''airfare'', ec_amount = 100,
                      ec_currency = None, ec_date = None, ec_notes = None\<rparr>"

definition only_currency :: BudgetUpdate where
  "only_currency = \<lparr>bu_budget_total = None, bu_budget_currency = Some ''usd''\<rparr>"

text \<open>
  A stand-in for the libraries: it parses the two dates of the trip to Paris (to their day
  numbers) and two JSON texts, and refuses every other input.
\<close>

definition estimate_text :: string where
  "estimate_text =
     ''{'' @ [CHR 0x22] @ ''total'' @ [CHR 0x22] @ '': 1200, ''
          @ [CHR 0x22] @ ''currency'' @ [CHR 0x22] @ '': '' @ [CHR 0x22] @ ''EUR'' @ [CHR 0x22]
          @ ''}''"

definition estimate_object :: json where
  "estimate_object = JObj [(''total'', JInt 1200), (''currency'', JStr ''EUR'')]"

definition stub_library :: library where
  "stub_library =
     \<lparr>fromisoformat = (\<lambda>s. if s = ''2024-07-01'' then Some 739068
                            else if s = ''2024-07-05'' then Some 739072 else None),
      json_loads = (\<lambda>s. if s = ''{}'' then Some (JObj [])
                         else if s = estimate_text then Some estimate_object else None),
      float_column = (\<lambda>v. None),
      string_column = (\<lambda>v. None)\<rparr>"

definition plain_request :: EstimateRequest where
  "plain_request =
     \<lparr>model = ''llama3'', travelers = 1, duration_days = None, travel_style = ''mid-range''\<rparr>"

definition negative_request :: EstimateRequest where
  "negative_request =
     \<lparr>model = ''llama3'', travelers = 1, duration_days = Some (- 3),
      travel_style = ''mid-range''\<rparr>"

definition ten_days_request :: EstimateRequest where
  "ten_days_request =
     \<lparr>model = ''llama3'', travelers = 2, duration_days = Some 10, travel_style = ''luxury''\<rparr>"

text \<open>Gateways: one that cannot be reached, one that answers 503, and three that answer
  200 with a content.\<close>

definition reply_with :: "string \<Rightarrow> http_exchange" where
  "reply_with content =
     Responded 200
       (Some (JObj [(''message'', JObj [(''role'', JStr ''assistant''), (''content'', JStr content)]),
                    (''total_duration'', JInt 2500000)]))"

definition gateway_down :: "payload \<Rightarrow> http_exchange" where
  "gateway_down pl = ConnectFailed ''connection refused''"

definition gateway_unavailable :: "payload \<Rightarrow> http_exchange" where
  "gateway_unavailable pl = Responded 503 None"

definition gateway_prose :: "payload \<Rightarrow> http_exchange" where
  "gateway_prose pl = reply_with ''not json''"

definition gateway_empty :: "payload \<Rightarrow> http_exchange" where
  "gateway_empty pl = reply_with ''{}''"



section \<open>Facts about the summary calculator\<close>

lemma and_then_Inr: "and_then m f = Inr y \<longleftrightarrow> (\<exists>x. m = Inr x \<and> f x = Inr y)"
  by (cases m) (simp_all add: and_then_def)


lemma sum_bump: "sum_list (map snd (bump m k v)) = sum_list (map snd m) + v"
  by (induction m k v rule: bump.induct) auto

lemma sum_foldl_bump:
  "sum_list (map snd (foldl (\<lambda>m e. bump m (category e) (amount e)) m es))
     = sum_list (map snd m) + sum_list (map amount es)"
  by (induction es arbitrary: m) (simp_all add: sum_bump)

lemma sum_by_category: "sum_list (map snd (by_category_of es)) = sum_list (map amount es)"
  by (simp add: by_category_of_def sum_foldl_bump)

lemma lookup0_bump: "lookup0 (bump m k v) c = (if c = k then lookup0 m k + v else lookup0 m c)"
  by (induction m k v rule: bump.induct) (auto simp: lookup0_def)

lemma lookup0_foldl_bump:
  "lookup0 (foldl (\<lambda>m e. bump m (category e) (amount e)) m es) c = lookup0 m c + spent_in es c"
  by (induction es arbitrary: m) (simp_all add: lookup0_bump spent_in_def)

lemma lookup0_by_category: "lookup0 (by_category_of es) c = spent_in es c"
  by (simp add: by_category_of_def lookup0_foldl_bump) (simp add: lookup0_def)

lemma entries_of_Inr:
  "entries_of trip bc ests cats = Inr cs \<longleftrightarrow>
     list_all2 (\<lambda>cat c. entry_of trip bc ests cat = Inr c) cats cs"
  by (induction cats arbitrary: cs) (auto simp: and_then_Inr list_all2_Cons1)

lemma pct_of_total_Inr:
  "pct_of_total num b =
     Inr (case b of None \<Rightarrow> None | Some x \<Rightarrow> if x \<noteq> 0 then Some (py_round (num / x * 100) 1) else None)"
  by (auto simp: pct_of_total_def float_truediv_def and_then_def split: option.splits)

lemma truthy_number: "truthy v \<Longrightarrow> as_number v = Some n \<Longrightarrow> n \<noteq> 0"
  by (cases v) (auto split: if_splits)

lemma icon_of_Inr: "cat \<in> set EXPENSE_CATEGORIES \<Longrightarrow> \<exists>i. icon_of cat = Inr i"
  by (auto simp: EXPENSE_CATEGORIES_def icon_of_def CATEGORY_ICONS_def)

lemma est_ratio:
  "(if truthy est then and_then (truediv sp est) (\<lambda>q. Inr (Some (py_round (q * 100) 1))) else Inr None)
     = (if truthy est \<and> as_number est = None then Inl TypeError else Inr (pct_est sp est))"
  by (auto simp: truediv_def float_truediv_def and_then_def pct_est_def split: option.splits dest: truthy_number)

lemma dict_get_est_of:
  "and_then (dict_get ests cat (JObj [])) (\<lambda>entry. and_then (dict_get entry ''amount'' (JFloat 0)) f)
     = (case est_of ests cat of None \<Rightarrow> Inl AttributeError | Some est \<Rightarrow> f est)"
proof (cases ests)
  case (JObj kvs)
  show ?thesis
    by (cases "case map_of kvs cat of None \<Rightarrow> JObj [] | Some v \<Rightarrow> v")
       (simp_all add: JObj est_of_def and_then_def)
qed (simp_all add: est_of_def and_then_def)

lemma entry_of_eq:
  "entry_of trip bc ests cat =
     (case est_of ests cat of
        None \<Rightarrow> Inl AttributeError
      | Some est \<Rightarrow>
          (case icon_of cat of
             Inl e \<Rightarrow> Inl e
           | Inr ic \<Rightarrow>
               if truthy est \<and> as_number est = None then Inl TypeError
               else Inr \<lparr>c_category = cat, icon = ic, spent = lookup0 bc cat, estimated = est,
                         pct_of_budget = (case budget_total trip of None \<Rightarrow> None
                            | Some x \<Rightarrow> if x \<noteq> 0 then Some (py_round (lookup0 bc cat / x * 100) 1) else None),
                         pct_of_estimate = pct_est (lookup0 bc cat) est\<rparr>))"
proof -
  have sp: "(case map_of bc cat of None \<Rightarrow> 0 | Some v \<Rightarrow> v) = lookup0 bc cat"
    by (simp add: lookup0_def)
  show ?thesis
    unfolding entry_of_def Let_def sp dict_get_est_of est_ratio pct_of_total_Inr
    by (simp add: and_then_def split: option.splits sum.splits)
qed




lemma compute_summary_eq:
  "compute_summary trip es =
     (case entries_of trip (by_category_of es) (estimates_or_empty trip) EXPENSE_CATEGORIES of
        Inl e \<Rightarrow> Inl e
      | Inr cs \<Rightarrow>
          Inr \<lparr>s_budget_total = budget_total trip,
               s_budget_currency = (case budget_currency trip of None \<Rightarrow> ''USD''
                                    | Some c \<Rightarrow> if c = [] then ''USD'' else c),
               total_spent = py_round (sum_list (map amount es)) 2,
               remaining = (case budget_total trip of None \<Rightarrow> None
                            | Some x \<Rightarrow> if x \<noteq> 0 then Some (py_round (x - sum_list (map amount es)) 2) else None),
               pct_used = (case budget_total trip of None \<Rightarrow> None
                            | Some x \<Rightarrow> if x \<noteq> 0 then Some (py_round (sum_list (map amount es) / x * 100) 1) else None),
               categories = cs, estimates = estimates_or_empty trip\<rparr>)"
  unfolding compute_summary_def Let_def pct_of_total_Inr sum_by_category estimates_or_empty_def
  by (simp add: and_then_def split: sum.splits)

lemma entry_of_ok:
  "entry_of trip (by_category_of es) (estimates_or_empty trip) cat = Inr c \<Longrightarrow> entry_ok trip es cat c"
  by (auto simp: entry_of_eq entry_ok_def lookup0_by_category split: option.splits sum.splits if_splits)

lemma summary_entries:
  assumes "compute_summary trip es = Inr s"
  shows "list_all2 (entry_ok trip es) EXPENSE_CATEGORIES (categories s)"
proof -
  from assms obtain cs where cs: "entries_of trip (by_category_of es) (estimates_or_empty trip) EXPENSE_CATEGORIES = Inr cs"
    and s: "categories s = cs"
    by (auto simp: compute_summary_eq split: sum.splits)
  from cs have "list_all2 (\<lambda>cat c. entry_of trip (by_category_of es) (estimates_or_empty trip) cat = Inr c) EXPENSE_CATEGORIES cs"
    by (simp add: entries_of_Inr)
  then have "list_all2 (entry_ok trip es) EXPENSE_CATEGORIES cs"
    by (rule list_all2_mono) (rule entry_of_ok)
  with s show ?thesis by simp
qed




lemma est_of_shaped:
  assumes "shaped (budget_estimates trip)" "cat \<in> set EXPENSE_CATEGORIES"
  shows "\<exists>est. est_of (estimates_or_empty trip) cat = Some est \<and> (truthy est \<longrightarrow> as_number est \<noteq> None)"
proof (cases "budget_estimates trip")
  case None
  then show ?thesis by (simp add: estimates_or_empty_def est_of_def)
next
  case (Some j)
  show ?thesis
  proof (cases "truthy j")
    case False
    with Some show ?thesis by (simp add: estimates_or_empty_def est_of_def)
  next
    case True
    with Some assms(1) obtain kvs where j: "j = JObj kvs"
      and all: "\<forall>cat \<in> set EXPENSE_CATEGORIES. case map_of kvs cat of None \<Rightarrow> True | Some v \<Rightarrow> shaped_entry v"
      by (cases j) (auto simp: shaped_def)
    from all assms(2) have "case map_of kvs cat of None \<Rightarrow> True | Some v \<Rightarrow> shaped_entry v" by blast
    with Some True j show ?thesis
      by (auto simp: estimates_or_empty_def est_of_def shaped_entry_def split: option.splits json.splits)
  qed
qed

lemma entries_of_returns:
  "(\<And>cat. cat \<in> set cats \<Longrightarrow> \<exists>c. entry_of trip bc ests cat = Inr c) \<Longrightarrow> \<exists>cs. entries_of trip bc ests cats = Inr cs"
  by (induction cats) (auto simp: and_then_Inr)

lemma compute_summary_returns:
  assumes "shaped (budget_estimates trip)"
  shows "\<exists>s. compute_summary trip es = Inr s"
proof -
  have "\<exists>c. entry_of trip (by_category_of es) (estimates_or_empty trip) cat = Inr c"
    if "cat \<in> set EXPENSE_CATEGORIES" for cat
    using est_of_shaped[OF assms that] icon_of_Inr[OF that]
    by (auto simp: entry_of_eq)
  then obtain cs where "entries_of trip (by_category_of es) (estimates_or_empty trip) EXPENSE_CATEGORIES = Inr cs"
    using entries_of_returns by blast
  then show ?thesis by (simp add: compute_summary_eq)
qed










lemma shaped_rome: "shaped (budget_estimates rome)"
  by (simp add: rome_def shaped_def)










text \<open>The summary is computed exactly for the estimates of that shape.\<close>

lemma shaped_of_est_of:
  assumes "\<forall>cat \<in> set EXPENSE_CATEGORIES.
            \<exists>est. est_of (estimates_or_empty trip) cat = Some est \<and> (truthy est \<longrightarrow> as_number est \<noteq> None)"
  shows "shaped (budget_estimates trip)"
proof (cases "budget_estimates trip")
  case None
  then show ?thesis by (simp add: shaped_def)
next
  case (Some j)
  show ?thesis
  proof (cases "truthy j")
    case False
    with Some show ?thesis by (simp add: shaped_def)
  next
    case True
    with Some have e: "estimates_or_empty trip = j" by (simp add: estimates_or_empty_def)
    have "''food'' \<in> set EXPENSE_CATEGORIES" by (simp add: EXPENSE_CATEGORIES_def)
    with assms e obtain est where "est_of j ''food'' = Some est" by auto
    then obtain kvs where j: "j = JObj kvs" by (cases j) (simp_all add: est_of_def)
    have "case map_of kvs cat of None \<Rightarrow> True | Some v \<Rightarrow> shaped_entry v"
      if "cat \<in> set EXPENSE_CATEGORIES" for cat
    proof -
      from assms that e j obtain est where "est_of (JObj kvs) cat = Some est"
        and "truthy est \<longrightarrow> as_number est \<noteq> None" by auto
      then show ?thesis
        by (auto simp: est_of_def shaped_entry_def split: option.splits json.splits)
    qed
    with Some True j show ?thesis by (simp add: shaped_def)
  qed
qed

lemma compute_summary_returns_iff:
  "(\<exists>s. compute_summary trip es = Inr s) \<longleftrightarrow> shaped (budget_estimates trip)"
proof
  assume "\<exists>s. compute_summary trip es = Inr s"
  then obtain s where s: "compute_summary trip es = Inr s" by blast
  have "\<exists>est. est_of (estimates_or_empty trip) cat = Some est \<and> (truthy est \<longrightarrow> as_number est \<noteq> None)"
    if "cat \<in> set EXPENSE_CATEGORIES" for cat
  proof -
    from summary_entries[OF s] that obtain c where "entry_ok trip es cat c"
      by (auto simp: list_all2_conv_all_nth in_set_conv_nth)
    then show ?thesis by (auto simp: entry_ok_def)
  qed
  then show "shaped (budget_estimates trip)" by (intro shaped_of_est_of) blast
next
  assume "shaped (budget_estimates trip)"
  then show "\<exists>s. compute_summary trip es = Inr s" by (rule compute_summary_returns)
qed

section \<open>The claims about the summary calculator\<close>










section \<open>Facts about the store\<close>

lemma find_Some_D: "find P xs = Some x \<Longrightarrow> P x \<and> x \<in> set xs"
  by (induction xs) (auto split: if_splits)

lemma find_None_iff': "find P xs = None \<longleftrightarrow> (\<forall>x \<in> set xs. \<not> P x)"
  by (induction xs) auto

lemma first_trip_D: "first_trip d tid = Some trip \<Longrightarrow> t_id trip = tid \<and> trip \<in> set (trip_rows d)"
  unfolding first_trip_def by (drule find_Some_D) simp

lemma first_trip_None: "first_trip d tid = None \<longleftrightarrow> (\<forall>t \<in> set (trip_rows d). t_id t \<noteq> tid)"
  by (simp add: first_trip_def find_None_iff')

lemma first_expense_None:
  "first_expense d eid tid = None \<longleftrightarrow> (\<forall>e \<in> set (expense_rows d). e_id e = eid \<longrightarrow> trip_id e \<noteq> tid)"
  by (auto simp: first_expense_def find_None_iff')

lemma first_expense_D:
  "first_expense d eid tid = Some e \<Longrightarrow> e_id e = eid \<and> trip_id e = tid \<and> e \<in> set (expense_rows d)"
  unfolding first_expense_def by (drule find_Some_D) simp



lemma commit_trip_frame:
  "expense_rows (commit_trip d t) = expense_rows d"
  "map t_id (trip_rows (commit_trip d t)) = map t_id (trip_rows d)"
  "t_id r \<noteq> t_id t \<Longrightarrow> r \<in> set (trip_rows (commit_trip d t)) \<longleftrightarrow> r \<in> set (trip_rows d)"
  by (auto simp: commit_trip_def)

lemma expenses_of_commit_trip: "expenses_of (commit_trip d t) tid = expenses_of d tid"
  by (simp add: expenses_of_def commit_trip_def)


lemma first_trip_store0: "first_trip store0 1 = Some rome"
  by (simp add: first_trip_def store0_def rome_def)

lemma owned_store0: "owned store0"
  by (simp add: owned_def store0_def lunch_def rome_def)

lemma owned_commit_trip: "owned d \<Longrightarrow> owned (commit_trip d t)"
proof -
  assume o: "owned d"
  have "t_id ` set (trip_rows (commit_trip d t)) = t_id ` set (trip_rows d)"
    using commit_trip_frame(2)[of d t] by (metis list.set_map)
  with o show ?thesis
    unfolding owned_def commit_trip_frame(1) by (metis (no_types, lifting) imageE image_eqI)
qed

lemma owned_update_budget_settings: "owned d \<Longrightarrow> owned (snd (update_budget_settings d tid data))"
  by (auto simp: update_budget_settings_def Let_def owned_commit_trip split: option.splits)

lemma owned_add_expense: "owned d \<Longrightarrow> owned (snd (add_expense now d tid data))"
  by (auto simp: add_expense_def Let_def owned_def dest!: first_trip_D split: option.splits)

lemma trip_id_apply_update: "trip_id (apply_update data e) = trip_id e"
  by (simp add: apply_update_def Let_def split: option.splits)

lemma owned_update_expense: "owned d \<Longrightarrow> owned (snd (update_expense d tid eid data))"
  by (auto simp: update_expense_def Let_def owned_def commit_expense_def trip_id_apply_update
           dest!: first_expense_D split: option.splits)

lemma owned_delete_expense: "owned d \<Longrightarrow> owned (snd (delete_expense d tid eid))"
  by (auto simp: delete_expense_def Let_def owned_def commit_delete_expense_def split: option.splits)

lemma owned_delete_trip: "owned d \<Longrightarrow> owned (snd (delete_trip d tid))"
  by (fastforce simp: delete_trip_def owned_def split: option.splits)

section \<open>The claims about the settings and the expenses\<close>



text \<open>
  Claim C9. A trip does not exist when no row has its key. \<open>update_budget_settings\<close> and
  \<open>add_expense\<close> on a trip that does not exist fail with 404 and leave the store as it
  was. \<open>update_expense\<close> and \<open>delete_expense\<close> fail with 404 and leave the store as it was
  when no expense has both the key and the trip of the request, so also for an expense
  that exists under another trip; and, in a store where every expense belongs to a trip
  (\<open>owned\<close>), when the trip does not exist.
\<close>

theorem mutators_not_found:
  "(first_trip d tid = None \<longleftrightarrow> (\<forall>t \<in> set (trip_rows d). t_id t \<noteq> tid))
   \<and> (first_trip d tid = None \<longrightarrow>
        update_budget_settings d tid bu = (Inl (HTTPException 404 (Detail ''Trip not found'')), d)
        \<and> add_expense now d tid ec = (Inl (HTTPException 404 (Detail ''Trip not found'')), d))
   \<and> ((\<forall>e \<in> set (expense_rows d). e_id e = eid \<longrightarrow> trip_id e \<noteq> tid) \<longrightarrow>
        update_expense d tid eid eu = (Inl (HTTPException 404 (Detail ''Expense not found'')), d)
        \<and> delete_expense d tid eid = (Inl (HTTPException 404 (Detail ''Expense not found'')), d))
   \<and> (owned d \<and> first_trip d tid = None \<longrightarrow>
        update_expense d tid eid eu = (Inl (HTTPException 404 (Detail ''Expense not found'')), d)
        \<and> delete_expense d tid eid = (Inl (HTTPException 404 (Detail ''Expense not found'')), d))"
proof (intro conjI impI)
  show "first_trip d tid = None \<longleftrightarrow> (\<forall>t \<in> set (trip_rows d). t_id t \<noteq> tid)"
    by (rule first_trip_None)
next
  assume "first_trip d tid = None"
  then show "update_budget_settings d tid bu = (Inl (HTTPException 404 (Detail ''Trip not found'')), d)"
    and "add_expense now d tid ec = (Inl (HTTPException 404 (Detail ''Trip not found'')), d)"
    by (simp_all add: update_budget_settings_def add_expense_def)
next
  assume "\<forall>e \<in> set (expense_rows d). e_id e = eid \<longrightarrow> trip_id e \<noteq> tid"
  then have "first_expense d eid tid = None" by (simp add: first_expense_None)
  then show "update_expense d tid eid eu = (Inl (HTTPException 404 (Detail ''Expense not found'')), d)"
    and "delete_expense d tid eid = (Inl (HTTPException 404 (Detail ''Expense not found'')), d)"
    by (simp_all add: update_expense_def delete_expense_def)
next
  assume "owned d \<and> first_trip d tid = None"
  then have "\<forall>e \<in> set (expense_rows d). trip_id e \<noteq> tid"
    by (auto simp: owned_def first_trip_None)
  then have "first_expense d eid tid = None" by (simp add: first_expense_None)
  then show "update_expense d tid eid eu = (Inl (HTTPException 404 (Detail ''Expense not found'')), d)"
    and "delete_expense d tid eid = (Inl (HTTPException 404 (Detail ''Expense not found'')), d)"
    by (simp_all add: update_expense_def delete_expense_def)
qed

text \<open>
  Claim C9 at a store with the trips 1 and 4 and the expense 1 of trip 1: requests for
  trip 9, and requests for the expense 1 under trip 4.
\<close>

theorem mutators_not_found_witness:
  "owned store0 \<and> first_trip store0 9 = None
   \<and> update_budget_settings store0 9 only_currency
        = (Inl (HTTPException 404 (Detail ''Trip not found'')), store0)
   \<and> add_expense 5 store0 9 flights_create
        = (Inl (HTTPException 404 (Detail ''Trip not found'')), store0)
   \<and> update_expense store0 9 1 to_flights
        = (Inl (HTTPException 404 (Detail ''Expense not found'')), store0)
   \<and> delete_expense store0 9 1
        = (Inl (HTTPException 404 (Detail ''Expense not found'')), store0)
   \<and> first_trip store0 4 = Some paris
   \<and> update_expense store0 4 1 to_flights
        = (Inl (HTTPException 404 (Detail ''Expense not found'')), store0)
   \<and> delete_expense store0 4 1
        = (Inl (HTTPException 404 (Detail ''Expense not found'')), store0)"
proof -
  have n: "first_trip store0 9 = None"
    by (simp add: first_trip_def store0_def rome_def paris_def)
  have p: "first_trip store0 4 = Some paris"
    by (simp add: first_trip_def store0_def rome_def paris_def)
  have m: "\<forall>e \<in> set (expense_rows store0). e_id e = 1 \<longrightarrow> trip_id e \<noteq> 4"
    by (simp add: store0_def lunch_def)
  from mutators_not_found[of store0 9 only_currency 5 flights_create 1 to_flights] n owned_store0
    mutators_not_found[of store0 4 only_currency 5 flights_create 1 to_flights] m p
  show ?thesis by blast
qed

text \<open>\<open>add_expense\<close> checks the category before it writes.\<close>

lemma add_expense_rejects:
  "first_trip d tid = Some trip \<Longrightarrow> ec_category data \<notin> set EXPENSE_CATEGORIES \<Longrightarrow>
     add_expense now d tid data = (Inl (HTTPException 400 (CategoryMustBeOneOf EXPENSE_CATEGORIES)), d)"
  by (simp add: add_expense_def)

lemma add_expense_flights:
  "add_expense 5 store0 1 flights_create
     = (Inl (HTTPException 400 (CategoryMustBeOneOf EXPENSE_CATEGORIES)), store0)"
  by (rule add_expense_rejects[OF first_trip_store0])
     (simp add: flights_create_def EXPENSE_CATEGORIES_def)

text \<open>
  Claim C3 fails for \<open>update_expense\<close>, which has no check of the category: on the store
  with the expense 1 of trip 1, the request to set its category to \<^verbatim>\<open>flights\<close>, a name
  outside the fixed set, succeeds and the row is stored with that category.
\<close>

theorem update_expense_accepts_any_category:
  "''flights'' \<notin> set EXPENSE_CATEGORIES
   \<and> (\<exists>r. update_expense store0 1 1 to_flights
             = (Inr r, store0\<lparr>expense_rows := [lunch\<lparr>category := ''flights''\<rparr>]\<rparr>)
          \<and> category (row (r_expense r)) = ''flights'')"
proof -
  let ?e = "lunch\<lparr>category := ''flights''\<rparr>"
  let ?d = "store0\<lparr>expense_rows := [?e]\<rparr>"
  have f: "first_expense store0 1 1 = Some lunch"
    by (simp add: first_expense_def store0_def lunch_def)
  have a: "apply_update to_flights lunch = ?e"
    by (simp add: apply_update_def to_flights_def)
  have c: "commit_expense store0 ?e = ?d"
    by (simp add: commit_expense_def store0_def lunch_def)
  have t: "first_trip ?d 1 = Some rome"
    by (simp add: first_trip_def store0_def rome_def)
  have x: "expenses_of ?d 1 = [?e]"
    by (simp add: expenses_of_def lunch_def)
  from compute_summary_returns[OF shaped_rome]
  obtain s where s: "compute_summary rome [?e] = Inr s" by blast
  have "update_expense store0 1 1 to_flights
      = (Inr \<lparr>r_expense = expense_to_dict ?e, r_summary = s\<rparr>, ?d)"
    by (simp add: update_expense_def f a c t x s Let_def compute_summary_opt_def
          expense_response_or_500_def)
  moreover have "category (row (expense_to_dict ?e)) = ''flights''"
    by (simp add: expense_to_dict_def)
  moreover have "''flights'' \<notin> set EXPENSE_CATEGORIES"
    by (simp add: EXPENSE_CATEGORIES_def)
  ultimately show ?thesis by simp
qed

section \<open>The claims about the cost estimator\<close>

lemma truthy_schema: "truthy ESTIMATE_SCHEMA"
  by (simp add: ESTIMATE_SCHEMA_def)

lemma generate_structured_sent:
  "snd (generate_structured lib gateway (estimate_prompt lib trip req) (model req) (Some ESTIMATE_SCHEMA))
     = [estimate_payload lib trip req]"
  by (simp add: generate_structured_def estimate_payload_def truthy_schema Let_def)

lemma estimate_costs_sent:
  "first_trip d tid = Some trip \<Longrightarrow>
     snd (snd (estimate_costs lib gateway d tid req)) = [estimate_payload lib trip req]"
  using generate_structured_sent[of lib gateway trip req]
  by (auto simp: estimate_costs_def Let_def split: prod.splits sum.splits)

text \<open>
  Claim C6, as amended. The estimator uses the \<^verbatim>\<open>duration_days\<close> of the request when it is
  present and not zero, whatever its sign. Otherwise, when the trip has a start and an
  end date, both not empty, and both parse, it uses the end minus the start in days, at
  least 1; when a date is missing, empty or does not parse, it uses 7 and no error
  surfaces. The duration resolved is the one of the prompt sent to the gateway.
\<close>

theorem resolve_duration_cases:
  "(\<forall>n. duration_days req = Some n \<and> n \<noteq> 0 \<longrightarrow> resolve_duration lib trip req = n)
   \<and> ((duration_days req = None \<or> duration_days req = Some 0) \<longrightarrow>
        (\<forall>sd ed s e. start_date trip = Some sd \<and> sd \<noteq> [] \<and> end_date trip = Some ed \<and> ed \<noteq> []
            \<and> fromisoformat lib sd = Some s \<and> fromisoformat lib ed = Some e
            \<longrightarrow> resolve_duration lib trip req = max 1 (e - s))
        \<and> ((\<not> str_set (start_date trip) \<or> \<not> str_set (end_date trip)
             \<or> (\<exists>sd. start_date trip = Some sd \<and> fromisoformat lib sd = None)
             \<or> (\<exists>ed. end_date trip = Some ed \<and> fromisoformat lib ed = None))
            \<longrightarrow> resolve_duration lib trip req = 7))
   \<and> (first_trip d tid = Some trip \<longrightarrow>
        map (\<lambda>pl. p_duration (pl_prompt pl)) (snd (snd (estimate_costs lib gateway d tid req)))
          = [resolve_duration lib trip req])"
proof (intro conjI impI allI)
  fix n assume "duration_days req = Some n \<and> n \<noteq> 0"
  then show "resolve_duration lib trip req = n"
    by (simp add: resolve_duration_def Let_def)
next
  fix sd ed s e
  assume a: "duration_days req = None \<or> duration_days req = Some 0"
    and b: "start_date trip = Some sd \<and> sd \<noteq> [] \<and> end_date trip = Some ed \<and> ed \<noteq> []
            \<and> fromisoformat lib sd = Some s \<and> fromisoformat lib ed = Some e"
  then show "resolve_duration lib trip req = max 1 (e - s)"
    by (auto simp: resolve_duration_def str_set_def Let_def)
next
  assume a: "duration_days req = None \<or> duration_days req = Some 0"
    and b: "\<not> str_set (start_date trip) \<or> \<not> str_set (end_date trip)
             \<or> (\<exists>sd. start_date trip = Some sd \<and> fromisoformat lib sd = None)
             \<or> (\<exists>ed. end_date trip = Some ed \<and> fromisoformat lib ed = None)"
  then show "resolve_duration lib trip req = 7"
    by (auto simp: resolve_duration_def str_set_def Let_def split: option.splits if_splits)
next
  assume "first_trip d tid = Some trip"
  then show "map (\<lambda>pl. p_duration (pl_prompt pl)) (snd (snd (estimate_costs lib gateway d tid req)))
          = [resolve_duration lib trip req]"
    by (simp add: estimate_costs_sent estimate_payload_def estimate_prompt_def)
qed

lemma first_trip_store0_paris: "first_trip store0 4 = Some paris"
  by (simp add: first_trip_def store0_def rome_def paris_def)

text \<open>
  The amended claim C6 at a request for 10 days, at the trip to Paris with its dates and
  with a start date that does not parse, and at the trip to Rome, which has no dates.
\<close>

theorem resolve_duration_cases_witness:
  "resolve_duration stub_library rome ten_days_request = 10
   \<and> resolve_duration stub_library paris plain_request = 4
   \<and> resolve_duration stub_library (paris\<lparr>start_date := Some ''soon''\<rparr>) plain_request = 7
   \<and> resolve_duration stub_library rome plain_request = 7
   \<and> map (\<lambda>pl. p_duration (pl_prompt pl))
        (snd (snd (estimate_costs stub_library gateway_down store0 4 plain_request))) = [4]"
proof -
  note t = resolve_duration_cases[of ten_days_request stub_library rome store0 1 gateway_down]
  note p = resolve_duration_cases[of plain_request stub_library paris store0 4 gateway_down]
  note q = resolve_duration_cases[of plain_request stub_library "paris\<lparr>start_date := Some ''soon''\<rparr>"
      store0 4 gateway_down]
  note r = resolve_duration_cases[of plain_request stub_library rome store0 1 gateway_down]
  have "resolve_duration stub_library rome ten_days_request = 10"
    using t by (simp add: ten_days_request_def)
  moreover have p4: "resolve_duration stub_library paris plain_request = 4"
    using p by (simp add: plain_request_def paris_def stub_library_def)
  moreover have "resolve_duration stub_library (paris\<lparr>start_date := Some ''soon''\<rparr>) plain_request = 7"
    using q by (simp add: plain_request_def paris_def stub_library_def str_set_def)
  moreover have "resolve_duration stub_library rome plain_request = 7"
    using r by (simp add: plain_request_def rome_def str_set_def)
  moreover have "map (\<lambda>pl. p_duration (pl_prompt pl))
        (snd (snd (estimate_costs stub_library gateway_down store0 4 plain_request))) = [4]"
    using p first_trip_store0_paris p4 by simp
  ultimately show ?thesis by simp
qed

text \<open>
  Claim C6 as stated fails for a duration that is present and not positive: with
  \<^verbatim>\<open>duration_days\<close> -3 and a trip without dates the claim gives 7, the code gives -3.
\<close>

theorem negative_duration_counterexample:
  "duration_days negative_request = Some (- 3)
   \<and> start_date rome = None \<and> end_date rome = None
   \<and> resolve_duration stub_library rome negative_request = - 3"
  by (simp add: negative_request_def rome_def resolve_duration_def str_set_def Let_def)

lemma generate_structured_connect:
  "gateway (estimate_payload lib trip req) = ConnectFailed msg \<Longrightarrow>
     fst (generate_structured lib gateway (estimate_prompt lib trip req) (model req)
            (Some ESTIMATE_SCHEMA)) = Inl (TransportError msg)"
  by (simp add: generate_structured_def estimate_payload_def truthy_schema Let_def)

lemma generate_structured_status:
  "gateway (estimate_payload lib trip req) = Responded st body \<Longrightarrow> \<not> (200 \<le> st \<and> st < 300) \<Longrightarrow>
     fst (generate_structured lib gateway (estimate_prompt lib trip req) (model req)
            (Some ESTIMATE_SCHEMA)) = Inl (HTTPStatusError st)"
  by (simp add: generate_structured_def estimate_payload_def truthy_schema Let_def)

lemma generate_structured_content:
  assumes "gateway (estimate_payload lib trip req) = Responded st (Some (JObj kvs))"
    and "200 \<le> st \<and> st < 300"
    and "map_of kvs ''message'' = Some (JObj m)"
    and "map_of m ''content'' = Some (JStr c)"
    and "case map_of kvs ''total_duration'' of None \<Rightarrow> True | Some v \<Rightarrow> as_number v \<noteq> None"
  shows "\<exists>g. fst (generate_structured lib gateway (estimate_prompt lib trip req) (model req)
            (Some ESTIMATE_SCHEMA)) = Inr g
          \<and> result g = (case json_loads lib c of None \<Rightarrow> JStr c | Some j \<Rightarrow> j)"
  using assms
  by (auto simp: generate_structured_def estimate_payload_def truthy_schema Let_def and_then_def
        float_truediv_def split: option.splits)

lemma estimate_costs_502:
  assumes "first_trip d tid = Some trip"
    and "fst (generate_structured lib gateway (estimate_prompt lib trip req) (model req)
            (Some ESTIMATE_SCHEMA)) = Inl e"
  shows "estimate_costs lib gateway d tid req
      = (Inl (HTTPException 502 (OllamaError e)), d, [estimate_payload lib trip req])"
  using assms generate_structured_sent[of lib gateway trip req]
  by (auto simp: estimate_costs_def Let_def split: prod.splits)

lemma estimate_costs_422:
  assumes "first_trip d tid = Some trip"
    and "fst (generate_structured lib gateway (estimate_prompt lib trip req) (model req)
            (Some ESTIMATE_SCHEMA)) = Inr g"
    and "is_str (result g)"
  shows "estimate_costs lib gateway d tid req
      = (Inl (HTTPException 422 (Detail ''Could not parse estimates from Ollama response'')), d,
         [estimate_payload lib trip req])"
  using assms generate_structured_sent[of lib gateway trip req]
  by (auto simp: estimate_costs_def Let_def split: prod.splits)

lemma estimate_costs_success:
  assumes "first_trip d tid = Some trip"
    and "fst (generate_structured lib gateway (estimate_prompt lib trip req) (model req)
            (Some ESTIMATE_SCHEMA)) = Inr g"
    and "\<not> is_str (result g)"
    and "save_estimates lib trip (result g) = Inr trip'"
    and "compute_summary trip' (expenses_of (commit_trip d trip') tid) = Inr s"
  shows "estimate_costs lib gateway d tid req
      = (Inr \<lparr>er_estimates = result g, er_summary = s\<rparr>, commit_trip d trip',
         [estimate_payload lib trip req])"
  using assms generate_structured_sent[of lib gateway trip req]
  by (auto simp: estimate_costs_def Let_def split: prod.splits)


text \<open>
  Claim C5, as amended. In an estimation call on an existing trip: when the gateway
  cannot be reached or answers with a status outside 200 to 299, and whenever
  \<open>generate_structured\<close> raises, the request fails with 502 and the exception raised;
  when the result of the gateway is a string (its content did not parse as JSON), the
  request fails with 422. In each of these cases the store is left as it was and exactly
  one payload has been sent to the gateway.
\<close>

theorem estimate_failures:
  "first_trip d tid = Some trip \<longrightarrow>
     (\<forall>msg. gateway (estimate_payload lib trip req) = ConnectFailed msg \<longrightarrow>
        estimate_costs lib gateway d tid req
          = (Inl (HTTPException 502 (OllamaError (TransportError msg))), d,
             [estimate_payload lib trip req]))
     \<and> (\<forall>st body. gateway (estimate_payload lib trip req) = Responded st body
            \<and> \<not> (200 \<le> st \<and> st < 300) \<longrightarrow>
        estimate_costs lib gateway d tid req
          = (Inl (HTTPException 502 (OllamaError (HTTPStatusError st))), d,
             [estimate_payload lib trip req]))
     \<and> (\<forall>e. fst (generate_structured lib gateway (estimate_prompt lib trip req) (model req)
                   (Some ESTIMATE_SCHEMA)) = Inl e \<longrightarrow>
        estimate_costs lib gateway d tid req
          = (Inl (HTTPException 502 (OllamaError e)), d, [estimate_payload lib trip req]))
     \<and> (\<forall>g. fst (generate_structured lib gateway (estimate_prompt lib trip req) (model req)
                   (Some ESTIMATE_SCHEMA)) = Inr g \<and> is_str (result g) \<longrightarrow>
        estimate_costs lib gateway d tid req
          = (Inl (HTTPException 422 (Detail ''Could not parse estimates from Ollama response'')),
             d, [estimate_payload lib trip req]))
     \<and> (\<forall>st kvs m c. gateway (estimate_payload lib trip req) = Responded st (Some (JObj kvs))
            \<and> 200 \<le> st \<and> st < 300
            \<and> map_of kvs ''message'' = Some (JObj m) \<and> map_of m ''content'' = Some (JStr c)
            \<and> (case map_of kvs ''total_duration'' of None \<Rightarrow> True | Some v \<Rightarrow> as_number v \<noteq> None)
            \<and> json_loads lib c = None \<longrightarrow>
        estimate_costs lib gateway d tid req
          = (Inl (HTTPException 422 (Detail ''Could not parse estimates from Ollama response'')),
             d, [estimate_payload lib trip req]))"
proof (intro impI conjI allI)
  fix msg
  assume t: "first_trip d tid = Some trip"
    and "gateway (estimate_payload lib trip req) = ConnectFailed msg"
  then show "estimate_costs lib gateway d tid req
          = (Inl (HTTPException 502 (OllamaError (TransportError msg))), d,
             [estimate_payload lib trip req])"
    by (simp add: estimate_costs_502 generate_structured_connect)
next
  fix st body
  assume t: "first_trip d tid = Some trip"
    and "gateway (estimate_payload lib trip req) = Responded st body \<and> \<not> (200 \<le> st \<and> st < 300)"
  then show "estimate_costs lib gateway d tid req
          = (Inl (HTTPException 502 (OllamaError (HTTPStatusError st))), d,
             [estimate_payload lib trip req])"
    by (simp add: estimate_costs_502 generate_structured_status)
next
  fix e
  assume "first_trip d tid = Some trip"
    and "fst (generate_structured lib gateway (estimate_prompt lib trip req) (model req)
                   (Some ESTIMATE_SCHEMA)) = Inl e"
  then show "estimate_costs lib gateway d tid req
          = (Inl (HTTPException 502 (OllamaError e)), d, [estimate_payload lib trip req])"
    by (rule estimate_costs_502)
next
  fix g
  assume "first_trip d tid = Some trip"
    and "fst (generate_structured lib gateway (estimate_prompt lib trip req) (model req)
                   (Some ESTIMATE_SCHEMA)) = Inr g \<and> is_str (result g)"
  then show "estimate_costs lib gateway d tid req
          = (Inl (HTTPException 422 (Detail ''Could not parse estimates from Ollama response'')),
             d, [estimate_payload lib trip req])"
    by (simp add: estimate_costs_422)
next
  fix st kvs m c
  assume t: "first_trip d tid = Some trip"
    and h: "gateway (estimate_payload lib trip req) = Responded st (Some (JObj kvs))
            \<and> 200 \<le> st \<and> st < 300
            \<and> map_of kvs ''message'' = Some (JObj m) \<and> map_of m ''content'' = Some (JStr c)
            \<and> (case map_of kvs ''total_duration'' of None \<Rightarrow> True | Some v \<Rightarrow> as_number v \<noteq> None)
            \<and> json_loads lib c = None"
  then obtain g where "fst (generate_structured lib gateway (estimate_prompt lib trip req) (model req)
            (Some ESTIMATE_SCHEMA)) = Inr g" and "result g = JStr c"
    using generate_structured_content[of gateway lib trip req st kvs m c] by auto
  with t show "estimate_costs lib gateway d tid req
          = (Inl (HTTPException 422 (Detail ''Could not parse estimates from Ollama response'')),
             d, [estimate_payload lib trip req])"
    by (simp add: estimate_costs_422 is_str_def)
qed

lemma reply_with_fields:
  "reply_with c = Responded 200 (Some (JObj [(''message'', JObj [(''role'', JStr ''assistant''), (''content'', JStr c)]),
                    (''total_duration'', JInt 2500000)]))"
  by (simp add: reply_with_def)

lemma generate_structured_reply:
  assumes "gateway (estimate_payload lib trip req) = reply_with c"
  shows "\<exists>g. fst (generate_structured lib gateway (estimate_prompt lib trip req) (model req)
            (Some ESTIMATE_SCHEMA)) = Inr g
          \<and> result g = (case json_loads lib c of None \<Rightarrow> JStr c | Some j \<Rightarrow> j)"
  by (rule generate_structured_content[where st = 200
        and m = "[(''role'', JStr ''assistant''), (''content'', JStr c)]"
        and kvs = "[(''message'', JObj [(''role'', JStr ''assistant''), (''content'', JStr c)]),
                    (''total_duration'', JInt 2500000)]"])
     (simp_all add: assms reply_with_fields)

text \<open>
  The amended claim C5 at a gateway that refuses the connection, at one that answers 503
  and at one whose content is the text \<^verbatim>\<open>not json\<close>.
\<close>

theorem estimate_failures_witness:
  "first_trip store0 1 = Some rome
   \<and> estimate_costs stub_library gateway_down store0 1 plain_request
       = (Inl (HTTPException 502 (OllamaError (TransportError ''connection refused''))), store0,
          [estimate_payload stub_library rome plain_request])
   \<and> estimate_costs stub_library gateway_unavailable store0 1 plain_request
       = (Inl (HTTPException 502 (OllamaError (HTTPStatusError 503))), store0,
          [estimate_payload stub_library rome plain_request])
   \<and> estimate_costs stub_library gateway_prose store0 1 plain_request
       = (Inl (HTTPException 422 (Detail ''Could not parse estimates from Ollama response'')), store0,
          [estimate_payload stub_library rome plain_request])"
proof -
  note f = estimate_failures[of store0 1 rome _ stub_library plain_request, THEN mp, OF first_trip_store0]
  have "estimate_costs stub_library gateway_down store0 1 plain_request
       = (Inl (HTTPException 502 (OllamaError (TransportError ''connection refused''))), store0,
          [estimate_payload stub_library rome plain_request])"
    using f[of gateway_down] by (simp add: gateway_down_def)
  moreover have "estimate_costs stub_library gateway_unavailable store0 1 plain_request
       = (Inl (HTTPException 502 (OllamaError (HTTPStatusError 503))), store0,
          [estimate_payload stub_library rome plain_request])"
    using f[of gateway_unavailable] by (simp add: gateway_unavailable_def)
  moreover have "estimate_costs stub_library gateway_prose store0 1 plain_request
       = (Inl (HTTPException 422 (Detail ''Could not parse estimates from Ollama response'')), store0,
          [estimate_payload stub_library rome plain_request])"
  proof -
    have "json_loads stub_library ''not json'' = None"
      by (simp add: stub_library_def estimate_text_def)
    then show ?thesis
      using f[of gateway_prose] by (simp add: gateway_prose_def reply_with_fields)
  qed
  ultimately show ?thesis using first_trip_store0 by simp
qed

lemma expenses_of_store0: "expenses_of (commit_trip store0 t) 1 = [lunch]"
  by (simp add: expenses_of_def commit_trip_def store0_def lunch_def)

text \<open>
  Claim C5 as stated fails for a result that is not a string and does not have the shape
  of the schema: when the content is the empty object, which has none of the required
  keys, the call succeeds and the stored estimate of the trip is overwritten with it.
\<close>

theorem empty_estimate_counterexample:
  "\<exists>resp. estimate_costs stub_library gateway_empty store0 1 plain_request
       = (Inr resp, store0\<lparr>trip_rows := [rome\<lparr>budget_estimates := Some (JObj [])\<rparr>, paris]\<rparr>,
          [estimate_payload stub_library rome plain_request])
     \<and> er_estimates resp = JObj []"
proof -
  let ?t = "rome\<lparr>budget_estimates := Some (JObj [])\<rparr>"
  have "gateway_empty (estimate_payload stub_library rome plain_request) = reply_with ''{}''"
    by (simp add: gateway_empty_def)
  from generate_structured_reply[of gateway_empty stub_library rome plain_request "''{}''", OF this]
  obtain g where g: "fst (generate_structured stub_library gateway_empty
        (estimate_prompt stub_library rome plain_request) (model plain_request)
        (Some ESTIMATE_SCHEMA)) = Inr g"
    and r: "result g = JObj []"
    by (auto simp: stub_library_def)
  have n: "\<not> is_str (result g)" by (simp add: r is_str_def)
  have sv: "save_estimates stub_library rome (result g) = Inr ?t"
    by (simp add: r save_estimates_def rome_def str_set_def budget_set_def and_then_def
          to_json_column_def)
  have c: "commit_trip store0 ?t = store0\<lparr>trip_rows := [?t, paris]\<rparr>"
    by (simp add: commit_trip_def store0_def rome_def paris_def)
  have "shaped (budget_estimates ?t)" by (simp add: shaped_def)
  from compute_summary_returns[OF this]
  obtain s where "compute_summary ?t (expenses_of (commit_trip store0 ?t) 1) = Inr s" by blast
  from estimate_costs_success[OF first_trip_store0 g n sv this]
  show ?thesis by (simp add: c r)
qed











lemma owned_estimate_costs:
  "owned d \<Longrightarrow> owned (fst (snd (estimate_costs lib gateway d tid req)))"
  by (auto simp: estimate_costs_def Let_def owned_commit_trip
        split: option.splits prod.splits sum.splits)

end
